theory Spec2Isabelle
  imports Complex_Main
begin

section \<open>Python and NumPy primitives used by the program\<close>

text \<open>
  The program is two Python files: \<^verbatim>\<open>mandelbrot.py\<close> (the escape-time loop and the pygame
  host around it) and \<^verbatim>\<open>colormap.py\<close> (the class \<^verbatim>\<open>ColorMap\<close>). Python's floats and
  NumPy's \<^verbatim>\<open>float64\<close> are idealised as the reals: rounding error is outside the model, so
  every equation below is an equation of exact arithmetic. Python's integers are \<open>int\<close>.

  The exceptions the modelled code can raise are the three below: an index out of range,
  a \<^verbatim>\<open>ValueError\<close> from NumPy or matplotlib, and a division or modulo by zero.
\<close>

datatype error = IndexError | ValueError | ZeroDivisionError

text \<open>
  \<^verbatim>\<open>xs[i]\<close> on a Python list or a one-dimensional NumPy array: an index in \<open>[-n, 0)\<close>
  counts from the end, anything outside \<open>[-n, n)\<close> raises \<^verbatim>\<open>IndexError\<close>.
\<close>

definition subscript :: "'a list \<Rightarrow> int \<Rightarrow> error + 'a" where
  "subscript xs i =
     (let n = int (length xs) in
      if 0 \<le> i \<and> i < n then Inr (xs ! nat i)
      else if - n \<le> i \<and> i < 0 then Inr (xs ! nat (n + i))
      else Inl IndexError)"

text \<open>
  \<^verbatim>\<open>xs[i] = v\<close> on a Python list: the same index rule, the list updated in place.
\<close>

definition assign_item :: "'a list \<Rightarrow> int \<Rightarrow> 'a \<Rightarrow> error + 'a list" where
  "assign_item xs i v =
     (let n = int (length xs) in
      if 0 \<le> i \<and> i < n then Inr (xs[nat i := v])
      else if - n \<le> i \<and> i < 0 then Inr (xs[nat (n + i) := v])
      else Inl IndexError)"

text \<open>
  \<^verbatim>\<open>np.linspace(start, stop, num)\<close>: \<open>num\<close> evenly spaced samples over the closed
  interval, the last one set to \<open>stop\<close> itself when there are at least two; a negative
  \<open>num\<close> raises \<^verbatim>\<open>ValueError\<close>. With one sample the step is not used and the sample is
  \<open>start\<close>.
\<close>

definition linspace :: "real \<Rightarrow> real \<Rightarrow> int \<Rightarrow> error + real list" where
  "linspace start stop num =
     (if num < 0 then Inl ValueError
      else Inr (map (\<lambda>k. if 1 < num \<and> int k = num - 1 then stop
                         else if 1 < num then start + real k * ((stop - start) / real_of_int (num - 1))
                         else start)
                    [0 ..< nat num]))"

text \<open>
  Python's built-in \<^verbatim>\<open>round(x)\<close> with one argument: the nearest integer, a tie going to
  the even neighbour.
\<close>

definition py_round :: "real \<Rightarrow> int" where
  "py_round x =
     (let f = \<lfloor>x\<rfloor>; d = x - real_of_int f in
      if d < 1 / 2 then f
      else if 1 / 2 < d then f + 1
      else if even f then f else f + 1)"

section \<open>mandelbrot.py: the escape-time loop\<close>

text \<open>
  The \<^verbatim>\<open>while\<close> loop of \<^verbatim>\<open>calculate_mandelbrot\<close>, with its three loop variables as
  arguments. The body increments \<open>itr\<close>, computes \<open>newx\<close> from the old \<open>x\<close> and \<open>y\<close>,
  then \<open>y\<close> from the old \<open>x\<close> and \<open>y\<close>, then assigns \<open>x\<close>.
\<close>

function escape_loop :: "int \<Rightarrow> real \<Rightarrow> real \<Rightarrow> int \<Rightarrow> real \<Rightarrow> real \<Rightarrow> int" where
  "escape_loop max_itr cx cy itr x y =
     (if itr < max_itr - 1 \<and> x * x + y * y \<le> 4
      then escape_loop max_itr cx cy (itr + 1) (x * x - y * y + cx) (2 * x * y + cy)
      else itr)"
  by pat_completeness auto
termination
  by (relation "measure (\<lambda>(max_itr, cx, cy, itr, x, y). nat (max_itr - 1 - itr))") auto

declare escape_loop.simps [simp del]

text \<open>
  \<^verbatim>\<open>calculate_mandelbrot()\<close>: for every \<open>i\<close> in \<^verbatim>\<open>range(len(real_values))\<close> and every \<open>j\<close>
  in \<^verbatim>\<open>range(len(imag_values))\<close> the loop runs from \<open>itr = 0\<close>, \<open>x = 0\<close>, \<open>y = 0\<close> and its
  count is stored at \<^verbatim>\<open>px_arr[i, j]\<close>. \<^verbatim>\<open>px_arr\<close> has the shape \<open>(num_x, num_y)\<close> and the
  two sample arrays are always made by \<^verbatim>\<open>np.linspace\<close> with these lengths, so a call
  overwrites every entry: the result is the matrix of the entries written, indexed
  \<open>! i ! j\<close>.
\<close>

definition calculate_mandelbrot :: "real list \<Rightarrow> real list \<Rightarrow> int \<Rightarrow> int list list" where
  "calculate_mandelbrot real_values imag_values max_itr =
     map (\<lambda>i. map (\<lambda>j. escape_loop max_itr (real_values ! i) (imag_values ! j) 0 0 0)
                   [0 ..< length imag_values])
         [0 ..< length real_values]"

text \<open>
  The recurrence as the specification words it: while \<open>iterations < max_iterations - 1\<close>
  and \<open>x\<^sup>2 + y\<^sup>2 \<le> 4\<close>, compute \<open>new_x\<close> and \<open>new_y\<close>, then add one to \<open>iterations\<close> and
  assign both.
\<close>

function spec_recurrence :: "int \<Rightarrow> real \<Rightarrow> real \<Rightarrow> int \<Rightarrow> real \<Rightarrow> real \<Rightarrow> int" where
  "spec_recurrence max_iterations cx cy iterations x y =
     (if iterations < max_iterations - 1 \<and> x\<^sup>2 + y\<^sup>2 \<le> 4
      then (let new_x = x\<^sup>2 - y\<^sup>2 + cx; new_y = 2 * x * y + cy
            in spec_recurrence max_iterations cx cy (iterations + 1) new_x new_y)
      else iterations)"
  by pat_completeness auto
termination
  by (relation "measure (\<lambda>(m, cx, cy, itr, x, y). nat (m - 1 - itr))") auto

declare spec_recurrence.simps [simp del]

section \<open>colormap.py: the class ColorMap\<close>

text \<open>
  matplotlib is not part of the repository. What the class uses of it is a parameter of the
  model: the list \<^verbatim>\<open>plt.colormaps()\<close> of registered names and, for each registered name,
  the colormap as a function from a normalised scalar to \<open>(r, g, b, a)\<close>.
\<close>

type_synonym rgba = "real \<times> real \<times> real \<times> real"

record mpl =
  colormaps :: "string list"
  lut :: "string \<Rightarrow> real \<Rightarrow> rgba"

text \<open>
  \<^verbatim>\<open>plt.get_cmap(name)\<close> raises \<^verbatim>\<open>ValueError\<close> for a name that is not registered. A
  colormap object is identified by its registered name.
\<close>

definition get_cmap :: "mpl \<Rightarrow> string \<Rightarrow> error + string" where
  "get_cmap M name = (if name \<in> set (colormaps M) then Inr name else Inl ValueError)"

text \<open>
  Calling \<^verbatim>\<open>mpl.colors.Normalize(vmin, vmax)\<close> on a value: \<open>0\<close> when the two bounds are
  equal, \<^verbatim>\<open>ValueError\<close> when \<open>vmin > vmax\<close>, else the linear map of \<open>[vmin, vmax]\<close> onto
  \<open>[0, 1]\<close>.
\<close>

definition normalize :: "real \<Rightarrow> real \<Rightarrow> real \<Rightarrow> error + real" where
  "normalize vmin vmax val =
     (if vmin = vmax then Inr 0
      else if vmax < vmin then Inl ValueError
      else Inr ((val - vmin) / (vmax - vmin)))"

text \<open>
  The tuples the four \<^verbatim>\<open>get_rgb*\<close> methods return, one constructor for each shape.
\<close>

datatype color =
    RGB_U8 int int int
  | RGBA_U8 int int int real
  | RGB_F real real real
  | RGBA_F real real real real

text \<open>
  The attributes of a \<^verbatim>\<open>ColorMap\<close> object. \<open>cmap_obj\<close>, \<open>norm_obj\<close> and \<open>scalarMap\<close>
  are \<^verbatim>\<open>self.cmap\<close>, \<^verbatim>\<open>self.norm\<close> and \<^verbatim>\<open>self.scalarMap\<close>: the colormap by its name,
  the normalisation by its two bounds, and the pair of both.
\<close>

record ColorMap =
  names_all :: "string list"
  names_to_cycle :: "string list"
  current_cycle_number :: int
  cmap_name :: string
  min_value :: real
  max_value :: real
  number_colors :: int
  colormap_array :: "color list"
  array_type :: string
  cmap_obj :: string
  norm_obj :: "real \<times> real"
  scalarMap :: "(real \<times> real) \<times> string"

text \<open>\<^verbatim>\<open>self.scalarMap.to_rgba(val)\<close>: normalise, then look the colour up.\<close>

definition to_rgba :: "mpl \<Rightarrow> ColorMap \<Rightarrow> real \<Rightarrow> error + rgba" where
  "to_rgba M self val =
     (case scalarMap self of ((vmin, vmax), cm) \<Rightarrow>
        (case normalize vmin vmax val of
           Inl e \<Rightarrow> Inl e
         | Inr t \<Rightarrow> Inr (lut M cm t)))"

definition get_rgb_u8 :: "mpl \<Rightarrow> ColorMap \<Rightarrow> real \<Rightarrow> error + color" where
  "get_rgb_u8 M self val =
     (case to_rgba M self val of
        Inl e \<Rightarrow> Inl e
      | Inr (r, g, b, a) \<Rightarrow>
          Inr (RGB_U8 (py_round (255 * r)) (py_round (255 * g)) (py_round (255 * b))))"

definition get_rgba_u8 :: "mpl \<Rightarrow> ColorMap \<Rightarrow> real \<Rightarrow> error + color" where
  "get_rgba_u8 M self val =
     (case to_rgba M self val of
        Inl e \<Rightarrow> Inl e
      | Inr (r, g, b, a) \<Rightarrow>
          Inr (RGBA_U8 (py_round (255 * r)) (py_round (255 * g)) (py_round (255 * b)) a))"

definition get_rgb_f :: "mpl \<Rightarrow> ColorMap \<Rightarrow> real \<Rightarrow> error + color" where
  "get_rgb_f M self val =
     (case to_rgba M self val of
        Inl e \<Rightarrow> Inl e
      | Inr (r, g, b, a) \<Rightarrow> Inr (RGB_F r g b))"

definition get_rgba_f :: "mpl \<Rightarrow> ColorMap \<Rightarrow> real \<Rightarrow> error + color" where
  "get_rgba_f M self val =
     (case to_rgba M self val of
        Inl e \<Rightarrow> Inl e
      | Inr (r, g, b, a) \<Rightarrow> Inr (RGBA_F r g b a))"

text \<open>
  The \<^verbatim>\<open>if\<close>/\<^verbatim>\<open>elif\<close> chain in the loop of \<^verbatim>\<open>initialize\<close>: the method that
  \<open>array_type\<close> selects, applied to \<open>v\<close>; \<open>None\<close> when no branch matches and nothing is
  appended.
\<close>

definition table_entry :: "mpl \<Rightarrow> ColorMap \<Rightarrow> real \<Rightarrow> (error + color) option" where
  "table_entry M self v =
     (if array_type self = ''rgb_u8'' then Some (get_rgb_u8 M self v)
      else if array_type self = ''rgba_u8'' then Some (get_rgba_u8 M self v)
      else if array_type self = ''rgb_f'' then Some (get_rgb_f M self v)
      else if array_type self = ''rgba_f'' then Some (get_rgba_f M self v)
      else None)"

text \<open>
  A method that mutates the object returns the object as it is left and, when an exception
  was raised, the exception: the attributes assigned before the \<^verbatim>\<open>raise\<close> stay assigned.

  The \<^verbatim>\<open>for v in vals\<close> loop of \<^verbatim>\<open>initialize\<close>.
\<close>

fun fill_colormap_array :: "mpl \<Rightarrow> ColorMap \<Rightarrow> real list \<Rightarrow> error option \<times> ColorMap" where
  "fill_colormap_array M self [] = (None, self)"
| "fill_colormap_array M self (v # vals) =
     (case table_entry M self v of
        None \<Rightarrow> fill_colormap_array M self vals
      | Some (Inl e) \<Rightarrow> (Some e, self)
      | Some (Inr c) \<Rightarrow>
          fill_colormap_array M (self\<lparr>colormap_array := colormap_array self @ [c]\<rparr>) vals)"

definition initialize :: "mpl \<Rightarrow> ColorMap \<Rightarrow> error option \<times> ColorMap" where
  "initialize M self =
     (case get_cmap M (cmap_name self) of
        Inl e \<Rightarrow> (Some e, self)
      | Inr cm \<Rightarrow>
          (let nrm = (min_value self, max_value self);
               self1 = self\<lparr>cmap_obj := cm, norm_obj := nrm, scalarMap := (nrm, cm)\<rparr>
           in case linspace (min_value self1) (max_value self1) (number_colors self1) of
                Inl e \<Rightarrow> (Some e, self1)
              | Inr vals \<Rightarrow> fill_colormap_array M (self1\<lparr>colormap_array := []\<rparr>) vals))"

text \<open>
  \<^verbatim>\<open>ColorMap.__init__\<close>. When \<^verbatim>\<open>initialize\<close> raises, the constructor raises and no object
  exists. The three attributes that only \<^verbatim>\<open>initialize\<close> creates are given, before the
  call, the values its first three assignments write.
\<close>

definition ColorMap_init ::
  "mpl \<Rightarrow> real \<Rightarrow> real \<Rightarrow> string \<Rightarrow> int \<Rightarrow> string \<Rightarrow> error + ColorMap" where
  "ColorMap_init M min_val max_val name num_colors ar_type =
     (case initialize M
        \<lparr>names_all = colormaps M,
         names_to_cycle = [''viridis'', ''plasma'', ''magma'', ''inferno'', ''cividis'',
           ''spring'', ''summer'', ''autumn'', ''winter'', ''hot'', ''twilight''],
         current_cycle_number = 0,
         cmap_name = name,
         min_value = min_val,
         max_value = max_val,
         number_colors = num_colors,
         colormap_array = [],
         array_type = ar_type,
         cmap_obj = name,
         norm_obj = (min_val, max_val),
         scalarMap = ((min_val, max_val), name)\<rparr>
      of (None, self) \<Rightarrow> Inr self
       | (Some e, self) \<Rightarrow> Inl e)"

text \<open>
  \<^verbatim>\<open>cycle_colormap\<close>: Python's \<^verbatim>\<open>%\<close> by a positive integer is \<open>mod\<close>; by zero it
  raises.
\<close>

definition cycle_colormap :: "mpl \<Rightarrow> ColorMap \<Rightarrow> error option \<times> ColorMap" where
  "cycle_colormap M self =
     (let self1 = self\<lparr>current_cycle_number := current_cycle_number self + 1\<rparr> in
      if length (names_to_cycle self1) = 0 then (Some ZeroDivisionError, self1)
      else
        let self2 = self1\<lparr>current_cycle_number :=
                      current_cycle_number self1 mod int (length (names_to_cycle self1))\<rparr>
        in case subscript (names_to_cycle self2) (current_cycle_number self2) of
             Inl e \<Rightarrow> (Some e, self2)
           | Inr name \<Rightarrow> initialize M (self2\<lparr>cmap_name := name\<rparr>))"

definition set_min_max_vals :: "mpl \<Rightarrow> ColorMap \<Rightarrow> real \<Rightarrow> real \<Rightarrow> error option \<times> ColorMap" where
  "set_min_max_vals M self min_val max_val =
     initialize M (self\<lparr>min_value := min_val, max_value := max_val\<rparr>)"

definition set_colormap_name :: "mpl \<Rightarrow> ColorMap \<Rightarrow> string \<Rightarrow> error option \<times> ColorMap" where
  "set_colormap_name M self name = initialize M (self\<lparr>cmap_name := name\<rparr>)"

definition set_array_type :: "mpl \<Rightarrow> ColorMap \<Rightarrow> string \<Rightarrow> error option \<times> ColorMap" where
  "set_array_type M self ar_type = initialize M (self\<lparr>array_type := ar_type\<rparr>)"

definition set_number_colors :: "mpl \<Rightarrow> ColorMap \<Rightarrow> int \<Rightarrow> error option \<times> ColorMap" where
  "set_number_colors M self num_cols = initialize M (self\<lparr>number_colors := num_cols\<rparr>)"

text \<open>
  Reading the table, \<^verbatim>\<open>cmap.colormap_array[index]\<close>, as the render loop of
  \<^verbatim>\<open>mandelbrot.py\<close> does.
\<close>

definition table_lookup :: "ColorMap \<Rightarrow> int \<Rightarrow> error + color" where
  "table_lookup self index = subscript (colormap_array self) index"

text \<open>\<^verbatim>\<open>cycle_colormap\<close> called \<open>k\<close> times in a row, stopping at the first exception.\<close>

fun cycle_times :: "mpl \<Rightarrow> nat \<Rightarrow> ColorMap \<Rightarrow> error option \<times> ColorMap" where
  "cycle_times M 0 self = (None, self)"
| "cycle_times M (Suc k) self =
     (case cycle_colormap M self of
        (None, self') \<Rightarrow> cycle_times M k self'
      | (Some e, self') \<Rightarrow> (Some e, self'))"

text \<open>
  A small instance of the matplotlib parameter, for running the model on concrete inputs:
  the eleven names of the cycle list and \<^verbatim>\<open>jet\<close>, each a linear ramp.
\<close>

definition demo_mpl :: mpl where
  "demo_mpl =
     \<lparr>colormaps = [''viridis'', ''plasma'', ''magma'', ''inferno'', ''cividis'',
        ''spring'', ''summer'', ''autumn'', ''winter'', ''hot'', ''twilight'', ''jet''],
      lut = (\<lambda>name t. (t, 1 - t, (if name = ''viridis'' then 0 else 1 / 2), 1))\<rparr>"

section \<open>mandelbrot.py: the host program\<close>

text \<open>
  The module-level variables of \<^verbatim>\<open>mandelbrot.py\<close>. \<open>px_arr\<close> holds the iteration counts,
  indexed \<open>! i ! j\<close> for \<^verbatim>\<open>px_arr[i, j]\<close>.
\<close>

record host =
  num_x :: int
  num_y :: int
  real_min :: real
  real_max :: real
  imag_max :: real
  imag_min :: real
  real_values :: "real list"
  imag_values :: "real list"
  cmap :: ColorMap
  set_black :: bool
  max_itr :: int
  px_arr :: "int list list"
  mouse_down_x :: int
  mouse_down_y :: int
  mouse_up_x :: int
  mouse_up_y :: int
  run :: bool

text \<open>
  The module body up to the first call of \<^verbatim>\<open>calculate_mandelbrot\<close>. The window size and
  the number of colours are written as constants in the source (\<open>1280\<close>, \<open>800\<close> and the
  default \<open>256\<close>), with comments that invite changing them; here they are arguments.
  \<open>imag_max\<close> divides Python floats, which raises on a zero divisor.
\<close>

definition startup :: "mpl \<Rightarrow> int \<Rightarrow> int \<Rightarrow> int \<Rightarrow> error + host" where
  "startup M nx ny num_colors =
     (let rmin = - 2; rmax = 1 in
      if 2 * real_of_int nx = 0 then Inl ZeroDivisionError
      else
        let imax = real_of_int ny * (rmax - rmin) / (2 * real_of_int nx); imin = - imax in
        case linspace rmin rmax nx of
          Inl e \<Rightarrow> Inl e
        | Inr rv \<Rightarrow>
            (case linspace imax imin ny of
               Inl e \<Rightarrow> Inl e
             | Inr iv \<Rightarrow>
                 (case ColorMap_init M 0 255 ''viridis'' num_colors ''rgb_u8'' of
                    Inl e \<Rightarrow> Inl e
                  | Inr cm \<Rightarrow>
                      Inr \<lparr>num_x = nx, num_y = ny,
                           real_min = rmin, real_max = rmax, imag_max = imax, imag_min = imin,
                           real_values = rv, imag_values = iv,
                           cmap = cm, set_black = False, max_itr = number_colors cm,
                           px_arr = calculate_mandelbrot rv iv (number_colors cm),
                           mouse_down_x = 0, mouse_down_y = 0, mouse_up_x = 0, mouse_up_y = 0,
                           run = True\<rparr>)))"

definition program_startup :: "mpl \<Rightarrow> error + host" where
  "program_startup M = startup M 1280 800 256"

text \<open>
  The events the loop reacts to. A mouse event carries the pixel position; an exception
  in a handler is not caught, so it ends the program (\<open>Inl\<close>).
\<close>

datatype event =
    QUIT
  | MOUSEBUTTONDOWN int int
  | MOUSEBUTTONUP int int
  | KEYDOWN_c
  | KEYDOWN_b
  | KEYDOWN_ESCAPE

text \<open>
  The \<^verbatim>\<open>MOUSEBUTTONUP\<close> branch: the new bounds are read from the current sample arrays at
  the pressed and released pixel, \<open>imag_min\<close> follows from the window's aspect ratio, both
  arrays are resampled and the counts recomputed. Nothing compares the two positions.
\<close>

definition mouse_button_up :: "host \<Rightarrow> int \<Rightarrow> int \<Rightarrow> error + host" where
  "mouse_button_up s ux uy =
     (let s1 = s\<lparr>mouse_up_x := ux, mouse_up_y := uy\<rparr> in
      case subscript (real_values s1) (mouse_down_x s1) of
        Inl e \<Rightarrow> Inl e
      | Inr rmin \<Rightarrow>
          (case subscript (real_values s1) (mouse_up_x s1) of
             Inl e \<Rightarrow> Inl e
           | Inr rmax \<Rightarrow>
               (case subscript (imag_values s1) (mouse_down_y s1) of
                  Inl e \<Rightarrow> Inl e
                | Inr imax \<Rightarrow>
                    (let imin = imax - real_of_int (num_y s1) * (rmax - rmin) / real_of_int (num_x s1) in
                     case linspace rmin rmax (num_x s1) of
                       Inl e \<Rightarrow> Inl e
                     | Inr rv \<Rightarrow>
                         (case linspace imax imin (num_y s1) of
                            Inl e \<Rightarrow> Inl e
                          | Inr iv \<Rightarrow>
                              Inr (s1\<lparr>real_min := rmin, real_max := rmax,
                                       imag_max := imax, imag_min := imin,
                                       real_values := rv, imag_values := iv,
                                       px_arr := calculate_mandelbrot rv iv (max_itr s1)\<rparr>))))))"

text \<open>
  The two key handlers. \<^verbatim>\<open>(0, 0, 0)\<close> is the tuple \<open>RGB_U8 0 0 0\<close>; the slot written is
  \<^verbatim>\<open>cmap.colormap_array[cmap.number_colors - 1]\<close>.
\<close>

definition set_last_color :: "host \<Rightarrow> color \<Rightarrow> error + host" where
  "set_last_color s c =
     (case assign_item (colormap_array (cmap s)) (number_colors (cmap s) - 1) c of
        Inl e \<Rightarrow> Inl e
      | Inr arr \<Rightarrow> Inr (s\<lparr>cmap := (cmap s)\<lparr>colormap_array := arr\<rparr>\<rparr>))"

definition key_c :: "mpl \<Rightarrow> host \<Rightarrow> error + host" where
  "key_c M s =
     (case cycle_colormap M (cmap s) of
        (Some e, cm) \<Rightarrow> Inl e
      | (None, cm) \<Rightarrow>
          (let s1 = s\<lparr>cmap := cm\<rparr> in
           if set_black s1 then set_last_color s1 (RGB_U8 0 0 0) else Inr s1))"

definition key_b :: "mpl \<Rightarrow> host \<Rightarrow> error + host" where
  "key_b M s =
     (let s1 = s\<lparr>set_black := \<not> set_black s\<rparr> in
      if set_black s1 then set_last_color s1 (RGB_U8 0 0 0)
      else (case get_rgb_u8 M (cmap s1) (max_value (cmap s1)) of
              Inl e \<Rightarrow> Inl e
            | Inr c \<Rightarrow> set_last_color s1 c))"

fun handle_event :: "mpl \<Rightarrow> host \<Rightarrow> event \<Rightarrow> error + host" where
  "handle_event M s QUIT = Inr (s\<lparr>run := False\<rparr>)"
| "handle_event M s (MOUSEBUTTONDOWN px py) = Inr (s\<lparr>mouse_down_x := px, mouse_down_y := py\<rparr>)"
| "handle_event M s (MOUSEBUTTONUP px py) = mouse_button_up s px py"
| "handle_event M s KEYDOWN_c = key_c M s"
| "handle_event M s KEYDOWN_b = key_b M s"
| "handle_event M s KEYDOWN_ESCAPE = Inr (s\<lparr>run := False\<rparr>)"

text \<open>
  The colouring pass of each frame: for every \<open>i\<close> and \<open>j\<close> the pixel is
  \<^verbatim>\<open>cmap.colormap_array[int(px_arr[i, j])]\<close>. The first failing read ends the pass.
\<close>

fun collect :: "(error + 'a) list \<Rightarrow> error + 'a list" where
  "collect [] = Inr []"
| "collect (Inl e # rs) = Inl e"
| "collect (Inr v # rs) = (case collect rs of Inl e \<Rightarrow> Inl e | Inr vs \<Rightarrow> Inr (v # vs))"

definition pixel_color :: "host \<Rightarrow> nat \<Rightarrow> nat \<Rightarrow> error + color" where
  "pixel_color s i j =
     (case subscript (px_arr s) (int i) of
        Inl e \<Rightarrow> Inl e
      | Inr row \<Rightarrow>
          (case subscript row (int j) of
             Inl e \<Rightarrow> Inl e
           | Inr itr \<Rightarrow> table_lookup (cmap s) itr))"

definition render :: "host \<Rightarrow> error + color list list" where
  "render s =
     collect (map (\<lambda>i. collect (map (\<lambda>j. pixel_color s i j) [0 ..< length (imag_values s)]))
                  [0 ..< length (real_values s)])"

text \<open>
  The states the program passes through: the state after start-up, and the state after
  every event that was handled without an exception.
\<close>

inductive reachable :: "mpl \<Rightarrow> int \<Rightarrow> int \<Rightarrow> int \<Rightarrow> host \<Rightarrow> bool"
  for M :: mpl and nx :: int and ny :: int and num_colors :: int where
  reachable_startup: "startup M nx ny num_colors = Inr s \<Longrightarrow> reachable M nx ny num_colors s"
| reachable_event:
    "reachable M nx ny num_colors s \<Longrightarrow> handle_event M s ev = Inr s' \<Longrightarrow>
     reachable M nx ny num_colors s'"

section \<open>Predicates and concrete instances used in the statements\<close>

text \<open>The four values of \<open>array_type\<close> that the loop of \<^verbatim>\<open>initialize\<close> recognises.\<close>

definition valid_array_type :: "string \<Rightarrow> bool" where
  "valid_array_type t \<longleftrightarrow> t = ''rgb_u8'' \<or> t = ''rgba_u8'' \<or> t = ''rgb_f'' \<or> t = ''rgba_f''"

text \<open>
  Concrete objects for running the model: a three-colour palette and a two-colour palette
  built by the constructor, the second under a name that is not in the cycle list.
\<close>

definition demo_palette :: ColorMap where
  "demo_palette = projr (ColorMap_init demo_mpl 0 255 ''viridis'' 3 ''rgb_u8'')"

definition demo_jet :: ColorMap where
  "demo_jet = projr (ColorMap_init demo_mpl 0 255 ''jet'' 2 ''rgb_u8'')"

text \<open>What the success of \<^verbatim>\<open>cycle_colormap\<close> rests on.\<close>

definition can_cycle :: "mpl \<Rightarrow> ColorMap \<Rightarrow> bool" where
  "can_cycle M self \<longleftrightarrow>
     names_to_cycle self \<noteq> [] \<and> set (names_to_cycle self) \<subseteq> set (colormaps M)
     \<and> 0 \<le> number_colors self \<and> min_value self \<le> max_value self"

text \<open>
  What every state of the running program satisfies: the iteration cap is the palette's
  number of colours and is at least one, the table has that many entries and is of type
  \<^verbatim>\<open>rgb_u8\<close>, and \<open>px_arr\<close> is the result of \<^verbatim>\<open>calculate_mandelbrot\<close> on the current
  sample arrays.
\<close>

definition host_inv :: "mpl \<Rightarrow> host \<Rightarrow> bool" where
  "host_inv M s \<longleftrightarrow>
     max_itr s = number_colors (cmap s) \<and> 1 \<le> max_itr s
     \<and> int (length (colormap_array (cmap s))) = number_colors (cmap s)
     \<and> array_type (cmap s) = ''rgb_u8''
     \<and> px_arr s = calculate_mandelbrot (real_values s) (imag_values s) (max_itr s)"

text \<open>
  Concrete runs of the host on a window of four by two pixels with three colours: the
  state after start-up, after pressing the button at pixel \<open>(3, 0)\<close>, and after releasing
  it at pixel \<open>(1, 1)\<close>, to the left of where it was pressed.
\<close>

definition demo_start :: host where
  "demo_start = projr (startup demo_mpl 4 2 3)"

definition demo_pressed :: host where
  "demo_pressed = projr (handle_event demo_mpl demo_start (MOUSEBUTTONDOWN 3 0))"

definition demo_released :: host where
  "demo_released = projr (handle_event demo_mpl demo_pressed (MOUSEBUTTONUP 1 1))"

section \<open>Properties of the escape-time loop\<close>

lemma escape_loop_eq_spec:
  "escape_loop m cx cy itr x y = spec_recurrence m cx cy itr x y"
proof (induction m cx cy itr x y rule: escape_loop.induct)
  case (1 m cx cy itr x y)
  show ?case
  proof (cases "itr < m - 1 \<and> x * x + y * y \<le> 4")
    case True
    from "1.IH" [OF True] True show ?thesis
      by (subst escape_loop.simps, subst spec_recurrence.simps)
         (simp add: power2_eq_square)
  next
    case False
    then show ?thesis
      by (subst escape_loop.simps, subst spec_recurrence.simps)
         (auto simp add: power2_eq_square)
  qed
qed

lemma escape_loop_lower: "itr \<le> escape_loop m cx cy itr x y"
proof (induction m cx cy itr x y rule: escape_loop.induct)
  case (1 m cx cy itr x y)
  show ?case
  proof (cases "itr < m - 1 \<and> x * x + y * y \<le> 4")
    case True
    from "1.IH" [OF True] True show ?thesis
      by (subst escape_loop.simps) simp
  next
    case False
    then show ?thesis
      by (subst escape_loop.simps) auto
  qed
qed

lemma escape_loop_upper: "itr \<le> m - 1 \<Longrightarrow> escape_loop m cx cy itr x y \<le> m - 1"
proof (induction m cx cy itr x y rule: escape_loop.induct)
  case (1 m cx cy itr x y)
  show ?case
  proof (cases "itr < m - 1 \<and> x * x + y * y \<le> 4")
    case True
    then have "itr + 1 \<le> m - 1" by simp
    from "1.IH" [OF True this] True show ?thesis
      by (subst escape_loop.simps) simp
  next
    case False
    with "1.prems" show ?thesis
      by (subst escape_loop.simps) auto
  qed
qed

lemma escape_loop_origin: "itr \<le> m - 1 \<Longrightarrow> escape_loop m 0 0 itr 0 0 = m - 1"
proof (induction "nat (m - 1 - itr)" arbitrary: itr)
  case 0
  then have "\<not> itr < m - 1" by simp
  with 0 show ?case
    by (simp add: escape_loop.simps [of m 0 0 itr 0 0])
next
  case (Suc n)
  then have lt: "itr < m - 1" by linarith
  from Suc have "n = nat (m - 1 - (itr + 1))" by linarith
  moreover from lt have "itr + 1 \<le> m - 1" by simp
  ultimately have "escape_loop m 0 0 (itr + 1) 0 0 = m - 1"
    by (rule Suc.hyps(1))
  with lt show ?case
    by (simp add: escape_loop.simps [of m 0 0 itr 0 0])
qed

lemma calculate_mandelbrot_nth:
  "i < length rvals \<Longrightarrow> j < length ivals \<Longrightarrow>
   calculate_mandelbrot rvals ivals m ! i ! j
     = escape_loop m (rvals ! i) (ivals ! j) 0 0 0"
  by (simp add: calculate_mandelbrot_def)

lemma calculate_mandelbrot_length:
  "length (calculate_mandelbrot rvals ivals m) = length rvals"
  by (simp add: calculate_mandelbrot_def)

lemma calculate_mandelbrot_row_length:
  "i < length rvals \<Longrightarrow>
   length (calculate_mandelbrot rvals ivals m ! i) = length ivals"
  by (simp add: calculate_mandelbrot_def)

text \<open>
  C1. At every pixel \<open>(i, j)\<close> the stored value is the count at which the recurrence of the
  specification, started from \<open>x = 0\<close>, \<open>y = 0\<close>, \<open>iterations = 0\<close> at the point
  \<open>(rvals ! i, ivals ! j)\<close>, leaves its loop (guard \<open>iterations < m - 1\<close>
  and \<open>x\<^sup>2 + y\<^sup>2 \<le> 4\<close>). For an iteration cap of at least one the stored value lies in
  \<open>[0, m - 1]\<close>, and at a pixel that maps to the origin it is exactly \<open>m - 1\<close>.
\<close>

theorem C1_recurrence_and_cap:
  assumes "i < length rvals" and "j < length ivals"
  shows "calculate_mandelbrot rvals ivals m ! i ! j
           = spec_recurrence m (rvals ! i) (ivals ! j) 0 0 0
         \<and> (1 \<le> m \<longrightarrow>
              0 \<le> calculate_mandelbrot rvals ivals m ! i ! j
              \<and> calculate_mandelbrot rvals ivals m ! i ! j \<le> m - 1)
         \<and> (1 \<le> m \<and> rvals ! i = 0 \<and> ivals ! j = 0 \<longrightarrow>
              calculate_mandelbrot rvals ivals m ! i ! j = m - 1)"
proof -
  let ?v = "calculate_mandelbrot rvals ivals m ! i ! j"
  have v: "?v = escape_loop m (rvals ! i) (ivals ! j) 0 0 0"
    using assms by (rule calculate_mandelbrot_nth)
  have a: "?v = spec_recurrence m (rvals ! i) (ivals ! j) 0 0 0"
    unfolding v by (rule escape_loop_eq_spec)
  have b: "0 \<le> ?v" unfolding v by (rule escape_loop_lower)
  have c: "?v \<le> m - 1" if "1 \<le> m"
    unfolding v using that by (intro escape_loop_upper) simp
  have d: "?v = m - 1" if "1 \<le> m" "rvals ! i = 0" "ivals ! j = 0"
    unfolding v using that by (simp add: escape_loop_origin)
  from a b c d show ?thesis by blast
qed

theorem C1_recurrence_and_cap_witness:
  "(0::nat) < length [0, 2 :: real] \<and> (0::nat) < length [0 :: real]
   \<and> calculate_mandelbrot [0, 2] [0] 5 ! 0 ! 0 = spec_recurrence 5 0 0 0 0 0
   \<and> calculate_mandelbrot [0, 2] [0] 5 ! 0 ! 0 = 4
   \<and> calculate_mandelbrot [0, 2] [0] 5 = [ [4], [2] ]"
proof -
  have v: "calculate_mandelbrot [0, 2] [0] 5 = [ [4], [2] ]"
    by (simp add: calculate_mandelbrot_def upt_conv_Cons escape_loop.simps)
  from C1_recurrence_and_cap [of 0 "[0, 2]" 0 "[0]" 5] v show ?thesis by simp
qed

section \<open>Sample arrays and the mirror symmetry\<close>

lemma linspace_Inr_iff: "(\<exists>vs. linspace a b n = Inr vs) \<longleftrightarrow> 0 \<le> n"
  by (auto simp: linspace_def)

lemma linspace_length: "linspace a b n = Inr vs \<Longrightarrow> length vs = nat n"
  by (auto simp: linspace_def split: if_splits)









section \<open>Building the colour table\<close>

lemma to_rgba_array [simp]:
  "to_rgba M (self\<lparr>colormap_array := arr\<rparr>) v = to_rgba M self v"
  by (simp add: to_rgba_def)

lemma table_entry_array [simp]:
  "table_entry M (self\<lparr>colormap_array := arr\<rparr>) v = table_entry M self v"
  by (simp add: table_entry_def get_rgb_u8_def get_rgba_u8_def get_rgb_f_def get_rgba_f_def)

lemma table_entry_None_iff:
  "table_entry M self v = None \<longleftrightarrow> \<not> valid_array_type (array_type self)"
  by (simp add: table_entry_def valid_array_type_def)

lemma to_rgba_Inr:
  assumes "fst (fst (scalarMap self)) \<le> snd (fst (scalarMap self))"
  shows "to_rgba M self v =
           Inr (lut M (snd (scalarMap self))
                  (if fst (fst (scalarMap self)) = snd (fst (scalarMap self)) then 0
                   else (v - fst (fst (scalarMap self)))
                        / (snd (fst (scalarMap self)) - fst (fst (scalarMap self)))))"
  using assms by (cases "scalarMap self") (auto simp: to_rgba_def normalize_def)

lemma table_entry_no_error:
  assumes "fst (fst (scalarMap self)) \<le> snd (fst (scalarMap self))"
  shows "table_entry M self v \<noteq> Some (Inl e)"
proof -
  from to_rgba_Inr [OF assms] obtain c where "to_rgba M self v = Inr c" by blast
  then show ?thesis
    by (cases c) (simp add: table_entry_def get_rgb_u8_def get_rgba_u8_def get_rgb_f_def get_rgba_f_def)
qed

lemma fill_frame:
  "fill_colormap_array M self vals = (r, self') \<Longrightarrow> \<exists>arr. self' = self\<lparr>colormap_array := arr\<rparr>"
proof (induction vals arbitrary: self)
  case Nil
  then have "self' = self\<lparr>colormap_array := colormap_array self\<rparr>" by simp
  then show ?case by blast
next
  case (Cons v vals)
  show ?case
  proof (cases "table_entry M self v")
    case None
    with Cons show ?thesis by simp
  next
    case (Some res)
    show ?thesis
    proof (cases res)
      case (Inl e)
      with Some Cons.prems have "self' = self\<lparr>colormap_array := colormap_array self\<rparr>" by simp
      then show ?thesis by blast
    next
      case (Inr c)
      with Some Cons.prems
      have "fill_colormap_array M (self\<lparr>colormap_array := colormap_array self @ [c]\<rparr>) vals = (r, self')"
        by simp
      from Cons.IH [OF this] obtain arr
        where "self' = self\<lparr>colormap_array := colormap_array self @ [c]\<rparr>\<lparr>colormap_array := arr\<rparr>"
        by blast
      then have "self' = self\<lparr>colormap_array := arr\<rparr>" by simp
      then show ?thesis by blast
    qed
  qed
qed

lemma fill_succeeds:
  assumes "\<And>v e. table_entry M self v \<noteq> Some (Inl e)"
  shows "fst (fill_colormap_array M self vals) = None"
  using assms
proof (induction vals arbitrary: self)
  case Nil
  show ?case by simp
next
  case (Cons v vals)
  show ?case
  proof (cases "table_entry M self v")
    case None
    with Cons show ?thesis by simp
  next
    case (Some res)
    with Cons.prems obtain c where res: "res = Inr c" by (cases res) auto
    have "fst (fill_colormap_array M (self\<lparr>colormap_array := colormap_array self @ [c]\<rparr>) vals) = None"
      by (rule Cons.IH) (simp add: Cons.prems)
    with Some res show ?thesis by simp
  qed
qed

lemma fill_entries:
  assumes "fill_colormap_array M self vals = (None, self')"
    and "valid_array_type (array_type self)"
  shows "\<exists>cs. colormap_array self' = colormap_array self @ cs \<and> length cs = length vals
           \<and> (\<forall>k<length vals. table_entry M self (vals ! k) = Some (Inr (cs ! k)))"
  using assms
proof (induction vals arbitrary: self)
  case Nil
  then show ?case by simp
next
  case (Cons v vals)
  from Cons.prems(2) have "table_entry M self v \<noteq> None"
    by (simp add: table_entry_None_iff)
  then obtain res where some: "table_entry M self v = Some res" by blast
  with Cons.prems(1) obtain c where res: "res = Inr c" by (cases res) auto
  let ?self1 = "self\<lparr>colormap_array := colormap_array self @ [c]\<rparr>"
  from some res Cons.prems(1) have "fill_colormap_array M ?self1 vals = (None, self')"
    by simp
  moreover from Cons.prems(2) have "valid_array_type (array_type ?self1)" by simp
  ultimately obtain cs where cs: "colormap_array self' = colormap_array ?self1 @ cs"
      "length cs = length vals"
      "\<forall>k<length vals. table_entry M ?self1 (vals ! k) = Some (Inr (cs ! k))"
    using Cons.IH by blast
  have "\<forall>k<length (v # vals). table_entry M self ((v # vals) ! k) = Some (Inr ((c # cs) ! k))"
  proof (intro allI impI)
    fix k assume "k < length (v # vals)"
    then show "table_entry M self ((v # vals) ! k) = Some (Inr ((c # cs) ! k))"
      using cs(3) some res by (cases k) auto
  qed
  with cs(1,2) show ?case
    by (intro exI [of _ "c # cs"]) simp
qed

lemma initialize_unknown:
  "cmap_name self \<notin> set (colormaps M) \<Longrightarrow> initialize M self = (Some ValueError, self)"
  by (simp add: initialize_def get_cmap_def)

lemma initialize_unfold:
  assumes "cmap_name self \<in> set (colormaps M)"
    and "linspace (min_value self) (max_value self) (number_colors self) = Inr vals"
  shows "initialize M self =
           fill_colormap_array M
             (self\<lparr>cmap_obj := cmap_name self,
                   norm_obj := (min_value self, max_value self),
                   scalarMap := ((min_value self, max_value self), cmap_name self),
                   colormap_array := []\<rparr>) vals"
  using assms by (simp add: initialize_def get_cmap_def Let_def)

lemma initialize_None_name:
  assumes "initialize M self = (None, self')"
  shows "cmap_name self \<in> set (colormaps M)"
proof (rule ccontr)
  assume "cmap_name self \<notin> set (colormaps M)"
  from initialize_unknown [OF this] assms show False by simp
qed

lemma initialize_None_linspace:
  assumes "initialize M self = (None, self')"
  shows "\<exists>vals. linspace (min_value self) (max_value self) (number_colors self) = Inr vals"
proof (cases "linspace (min_value self) (max_value self) (number_colors self)")
  case (Inl e)
  with initialize_None_name [OF assms] assms show ?thesis
    by (simp add: initialize_def get_cmap_def Let_def)
next
  case (Inr vals)
  then show ?thesis by blast
qed

lemma initialize_frame:
  assumes "initialize M self = (r, self')"
  shows "names_all self' = names_all self \<and> names_to_cycle self' = names_to_cycle self
         \<and> current_cycle_number self' = current_cycle_number self
         \<and> cmap_name self' = cmap_name self
         \<and> min_value self' = min_value self \<and> max_value self' = max_value self
         \<and> number_colors self' = number_colors self \<and> array_type self' = array_type self"
proof (cases "cmap_name self \<in> set (colormaps M)")
  case False
  from initialize_unknown [OF this] assms show ?thesis by simp
next
  case True
  show ?thesis
  proof (cases "linspace (min_value self) (max_value self) (number_colors self)")
    case (Inl e)
    with True assms show ?thesis
      by (auto simp: initialize_def get_cmap_def Let_def)
  next
    case (Inr vals)
    from assms obtain arr where "self' = self\<lparr>cmap_obj := cmap_name self,
                   norm_obj := (min_value self, max_value self),
                   scalarMap := ((min_value self, max_value self), cmap_name self),
                   colormap_array := []\<rparr>\<lparr>colormap_array := arr\<rparr>"
      unfolding initialize_unfold [OF True Inr] by (blast dest: fill_frame)
    then show ?thesis by simp
  qed
qed

lemma initialize_succeeds:
  assumes "cmap_name self \<in> set (colormaps M)" and "0 \<le> number_colors self"
    and "min_value self \<le> max_value self"
  shows "fst (initialize M self) = None"
proof -
  from assms(2) obtain vals
    where vals: "linspace (min_value self) (max_value self) (number_colors self) = Inr vals"
    using linspace_Inr_iff by blast
  show ?thesis
    unfolding initialize_unfold [OF assms(1) vals]
    by (rule fill_succeeds, rule table_entry_no_error) (simp add: assms(3))
qed

lemma initialize_table:
  assumes "initialize M self = (None, self')"
    and "linspace (min_value self) (max_value self) (number_colors self) = Inr vals"
  shows "scalarMap self' = ((min_value self, max_value self), cmap_name self)
         \<and> (valid_array_type (array_type self) \<longrightarrow>
              length (colormap_array self') = length vals
              \<and> (\<forall>k<length vals. table_entry M self' (vals ! k) = Some (Inr (colormap_array self' ! k))))"
proof -
  let ?self1 = "self\<lparr>cmap_obj := cmap_name self,
                   norm_obj := (min_value self, max_value self),
                   scalarMap := ((min_value self, max_value self), cmap_name self),
                   colormap_array := []\<rparr>"
  have fill: "fill_colormap_array M ?self1 vals = (None, self')"
    using assms(1) unfolding initialize_unfold [OF initialize_None_name [OF assms(1)] assms(2)] .
  from fill_frame [OF fill] obtain arr where self': "self' = ?self1\<lparr>colormap_array := arr\<rparr>"
    by blast
  have sm: "scalarMap self' = ((min_value self, max_value self), cmap_name self)"
    by (simp add: self')
  have te: "table_entry M self' v = table_entry M ?self1 v" for v
    by (subst self') simp
  have "length (colormap_array self') = length vals
        \<and> (\<forall>k<length vals. table_entry M self' (vals ! k) = Some (Inr (colormap_array self' ! k)))"
    if "valid_array_type (array_type self)"
  proof -
    from that have "valid_array_type (array_type ?self1)" by simp
    from fill_entries [OF fill this] show ?thesis by (auto simp: te)
  qed
  with sm show ?thesis by blast
qed

lemma initialize_length:
  assumes "initialize M self0 = (None, self)" and "valid_array_type (array_type self)"
  shows "int (length (colormap_array self)) = number_colors self"
proof -
  note fr = initialize_frame [OF assms(1)]
  from initialize_None_linspace [OF assms(1)] obtain vals
    where vals: "linspace (min_value self0) (max_value self0) (number_colors self0) = Inr vals"
    by blast
  from vals have nn: "0 \<le> number_colors self0" using linspace_Inr_iff by blast
  from assms(2) have "valid_array_type (array_type self0)" by (simp add: fr)
  with initialize_table [OF assms(1) vals] have "length (colormap_array self) = length vals"
    by simp
  with linspace_length [OF vals] nn show ?thesis by (simp add: fr)
qed

section \<open>The table endpoints\<close>

lemmas demo_eval =
  ColorMap_init_def initialize_def demo_mpl_def get_cmap_def linspace_def upt_conv_Cons
  table_entry_def get_rgb_u8_def get_rgba_u8_def to_rgba_def normalize_def py_round_def
  subscript_def table_lookup_def Let_def

lemma demo_palette_eq:
  "demo_palette =
     \<lparr>names_all = [''viridis'', ''plasma'', ''magma'', ''inferno'', ''cividis'',
        ''spring'', ''summer'', ''autumn'', ''winter'', ''hot'', ''twilight'', ''jet''],
      names_to_cycle = [''viridis'', ''plasma'', ''magma'', ''inferno'', ''cividis'',
        ''spring'', ''summer'', ''autumn'', ''winter'', ''hot'', ''twilight''],
      current_cycle_number = 0, cmap_name = ''viridis'',
      min_value = 0, max_value = 255, number_colors = 3,
      colormap_array = [RGB_U8 0 255 0, RGB_U8 128 128 0, RGB_U8 255 0 0],
      array_type = ''rgb_u8'', cmap_obj = ''viridis'',
      norm_obj = (0, 255), scalarMap = ((0, 255), ''viridis'')\<rparr>"
  by (simp add: demo_palette_def demo_eval)

lemma demo_palette_init:
  "ColorMap_init demo_mpl 0 255 ''viridis'' 3 ''rgb_u8'' = Inr demo_palette"
  by (simp add: demo_palette_eq) (simp add: demo_eval)

lemma demo_palette_initialize: "initialize demo_mpl demo_palette = (None, demo_palette)"
  by (simp add: demo_palette_eq) (simp add: demo_eval)



section \<open>Rounding and the 8-bit encodings\<close>

lemma py_round_nearest: "\<bar>real_of_int (py_round x) - x\<bar> \<le> 1 / 2"
proof -
  have "real_of_int \<lfloor>x\<rfloor> \<le> x" and "x < real_of_int \<lfloor>x\<rfloor> + 1" by linarith+
  then show ?thesis by (auto simp: py_round_def Let_def)
qed

lemma py_round_of_int: "py_round (real_of_int n) = n"
  by (simp add: py_round_def)

lemma py_round_range:
  assumes "real_of_int lo \<le> x" and "x \<le> real_of_int hi"
  shows "lo \<le> py_round x \<and> py_round x \<le> hi"
proof -
  from py_round_nearest [of x]
  have "x - 1 / 2 \<le> real_of_int (py_round x)" and "real_of_int (py_round x) \<le> x + 1 / 2"
    by linarith+
  with assms have "real_of_int lo - 1 / 2 \<le> real_of_int (py_round x)"
    and "real_of_int (py_round x) \<le> real_of_int hi + 1 / 2" by linarith+
  then have "real_of_int lo < real_of_int (py_round x) + 1"
    and "real_of_int (py_round x) < real_of_int hi + 1" by linarith+
  then have "lo < py_round x + 1" and "py_round x < hi + 1"
    by (metis of_int_less_iff of_int_add of_int_1)+
  then show ?thesis by simp
qed

text \<open>
  C9. Whenever \<^verbatim>\<open>to_rgba\<close> returns \<open>(r, g, b, a)\<close> for a scalar, \<^verbatim>\<open>get_rgb_u8\<close> and
  \<^verbatim>\<open>get_rgba_u8\<close> return red, green and blue as \<^verbatim>\<open>round(255 * channel)\<close>: an integer
  within one half of \<open>255 * channel\<close> (rounding, not truncation), in \<open>[0, 255]\<close> when the
  channel is in \<open>[0, 1]\<close>. The alpha of \<^verbatim>\<open>get_rgba_u8\<close> is \<open>a\<close> itself, not rescaled.
\<close>

theorem C9_u8_encodings:
  assumes "to_rgba M self val = Inr (r, g, b, a)"
  shows "get_rgb_u8 M self val
           = Inr (RGB_U8 (py_round (255 * r)) (py_round (255 * g)) (py_round (255 * b)))
         \<and> get_rgba_u8 M self val
           = Inr (RGBA_U8 (py_round (255 * r)) (py_round (255 * g)) (py_round (255 * b)) a)
         \<and> \<bar>real_of_int (py_round (255 * r)) - 255 * r\<bar> \<le> 1 / 2
         \<and> \<bar>real_of_int (py_round (255 * g)) - 255 * g\<bar> \<le> 1 / 2
         \<and> \<bar>real_of_int (py_round (255 * b)) - 255 * b\<bar> \<le> 1 / 2
         \<and> (0 \<le> r \<and> r \<le> 1 \<longrightarrow> 0 \<le> py_round (255 * r) \<and> py_round (255 * r) \<le> 255)
         \<and> (0 \<le> g \<and> g \<le> 1 \<longrightarrow> 0 \<le> py_round (255 * g) \<and> py_round (255 * g) \<le> 255)
         \<and> (0 \<le> b \<and> b \<le> 1 \<longrightarrow> 0 \<le> py_round (255 * b) \<and> py_round (255 * b) \<le> 255)"
proof -
  have u8: "0 \<le> py_round (255 * c) \<and> py_round (255 * c) \<le> 255" if "0 \<le> c" "c \<le> 1" for c
    using py_round_range [of 0 "255 * c" 255] that by simp
  have enc: "get_rgb_u8 M self val
           = Inr (RGB_U8 (py_round (255 * r)) (py_round (255 * g)) (py_round (255 * b)))"
    "get_rgba_u8 M self val
           = Inr (RGBA_U8 (py_round (255 * r)) (py_round (255 * g)) (py_round (255 * b)) a)"
    using assms by (simp_all add: get_rgb_u8_def get_rgba_u8_def)
  from enc py_round_nearest [of "255 * r"] py_round_nearest [of "255 * g"]
    py_round_nearest [of "255 * b"] u8 [of r] u8 [of g] u8 [of b]
  show ?thesis by blast
qed

theorem C9_u8_encodings_witness:
  "to_rgba demo_mpl demo_palette (255 / 2) = Inr (1 / 2, 1 / 2, 0, 1)
   \<and> get_rgb_u8 demo_mpl demo_palette (255 / 2) = Inr (RGB_U8 128 128 0)
   \<and> get_rgba_u8 demo_mpl demo_palette (255 / 2) = Inr (RGBA_U8 128 128 0 1)
   \<and> \<lfloor>255 * (1 / 2 :: real)\<rfloor> = 127"
proof -
  have h: "to_rgba demo_mpl demo_palette (255 / 2) = Inr (1 / 2, 1 / 2, 0, 1)"
    by (simp add: demo_palette_eq) (simp add: demo_eval)
  have r: "py_round (255 * (1 / 2)) = 128" "py_round (255 * 0) = 0"
    by (simp_all add: py_round_def)
  have f: "\<lfloor>255 * (1 / 2 :: real)\<rfloor> = 127" by simp
  from C9_u8_encodings [OF h] h r f show ?thesis by simp
qed

section \<open>Reading the table and setting the colormap name\<close>

text \<open>
  C5, as the code has it. \<^verbatim>\<open>colormap_array[index]\<close> follows Python's index rule: with
  \<open>n\<close> the table's length it returns entry \<open>index\<close> for \<open>0 \<le> index < n\<close>, entry
  \<open>n + index\<close> for \<open>- n \<le> index < 0\<close>, and raises \<^verbatim>\<open>IndexError\<close> exactly when
  \<open>index < - n\<close> or \<open>n \<le> index\<close>. After a successful \<^verbatim>\<open>initialize\<close> with one of the four
  array types, \<open>n\<close> is \<open>number_colors\<close>.
\<close>

theorem C5_table_lookup:
  "table_lookup self index =
     (if 0 \<le> index \<and> index < int (length (colormap_array self))
      then Inr (colormap_array self ! nat index)
      else if - int (length (colormap_array self)) \<le> index \<and> index < 0
      then Inr (colormap_array self ! nat (int (length (colormap_array self)) + index))
      else Inl IndexError)
   \<and> (isl (table_lookup self index) \<longleftrightarrow>
        index < - int (length (colormap_array self)) \<or> int (length (colormap_array self)) \<le> index)
   \<and> (initialize M self0 = (None, self) \<and> valid_array_type (array_type self) \<longrightarrow>
        int (length (colormap_array self)) = number_colors self)"
proof -
  have "int (length (colormap_array self)) = number_colors self"
    if "initialize M self0 = (None, self)" and "valid_array_type (array_type self)"
    using that by (rule initialize_length)
  then show ?thesis
    by (auto simp: table_lookup_def subscript_def Let_def)
qed

theorem C5_table_lookup_witness:
  "initialize demo_mpl demo_palette = (None, demo_palette)
   \<and> valid_array_type (array_type demo_palette)
   \<and> int (length (colormap_array demo_palette)) = 3
   \<and> table_lookup demo_palette 2 = Inr (RGB_U8 255 0 0)
   \<and> table_lookup demo_palette (- 3) = Inr (RGB_U8 0 255 0)
   \<and> isl (table_lookup demo_palette 3) \<and> isl (table_lookup demo_palette (- 4))"
proof -
  have h: "initialize demo_mpl demo_palette = (None, demo_palette)"
    "valid_array_type (array_type demo_palette)"
    by (simp_all add: demo_palette_initialize) (simp add: demo_palette_eq valid_array_type_def)
  have n: "number_colors demo_palette = 3"
    and a: "colormap_array demo_palette = [RGB_U8 0 255 0, RGB_U8 128 128 0, RGB_U8 255 0 0]"
    by (simp_all add: demo_palette_eq)
  from C5_table_lookup [of demo_palette 2 demo_mpl demo_palette]
    C5_table_lookup [of demo_palette "- 3" demo_mpl demo_palette]
    C5_table_lookup [of demo_palette 3 demo_mpl demo_palette]
    C5_table_lookup [of demo_palette "- 4" demo_mpl demo_palette] h n
  show ?thesis by (simp add: a)
qed

text \<open>
  The negative index \<open>- 1\<close> does not fail on a three-colour table: it returns the last
  colour.
\<close>

theorem C5_counterexample:
  "number_colors demo_palette = 3 \<and> table_lookup demo_palette (- 1) = Inr (RGB_U8 255 0 0)"
  by (simp add: demo_palette_eq) (simp add: demo_eval)

text \<open>
  C4, as the code has it. \<^verbatim>\<open>set_colormap_name\<close> assigns \<open>cmap_name\<close> before anything is
  checked. For a name that matplotlib does not know it raises \<^verbatim>\<open>ValueError\<close>, the table
  is as before, and \<open>cmap_name\<close> is already the unknown name. For a known name, with
  \<open>0 \<le> number_colors\<close> and \<open>min_value \<le> max_value\<close>, it succeeds, the name is stored and
  the table is rebuilt: with one of the four array types it has \<open>number_colors\<close> entries,
  entry \<open>k\<close> being the sample at the \<open>k\<close>-th point of the linspace.
\<close>

theorem C4_set_colormap_name:
  "(name \<notin> set (colormaps M) \<longrightarrow>
      set_colormap_name M self name = (Some ValueError, self\<lparr>cmap_name := name\<rparr>)
      \<and> colormap_array (snd (set_colormap_name M self name)) = colormap_array self
      \<and> cmap_name (snd (set_colormap_name M self name)) = name)
   \<and> (name \<in> set (colormaps M) \<and> 0 \<le> number_colors self \<and> min_value self \<le> max_value self \<longrightarrow>
        (\<exists>self' vals.
           set_colormap_name M self name = (None, self') \<and> cmap_name self' = name
           \<and> scalarMap self' = ((min_value self, max_value self), name)
           \<and> linspace (min_value self) (max_value self) (number_colors self) = Inr vals
           \<and> (valid_array_type (array_type self) \<longrightarrow>
                int (length (colormap_array self')) = number_colors self
                \<and> (\<forall>k<length vals.
                      table_entry M self' (vals ! k) = Some (Inr (colormap_array self' ! k))))))"
proof -
  let ?s = "self\<lparr>cmap_name := name\<rparr>"
  have bad: "set_colormap_name M self name = (Some ValueError, ?s)" if "name \<notin> set (colormaps M)"
    using that initialize_unknown [of ?s M] by (simp add: set_colormap_name_def)
  have good: "\<exists>self' vals.
           set_colormap_name M self name = (None, self') \<and> cmap_name self' = name
           \<and> scalarMap self' = ((min_value self, max_value self), name)
           \<and> linspace (min_value self) (max_value self) (number_colors self) = Inr vals
           \<and> (valid_array_type (array_type self) \<longrightarrow>
                int (length (colormap_array self')) = number_colors self
                \<and> (\<forall>k<length vals.
                      table_entry M self' (vals ! k) = Some (Inr (colormap_array self' ! k))))"
    if nm: "name \<in> set (colormaps M)" and nn: "0 \<le> number_colors self"
      and le: "min_value self \<le> max_value self"
  proof -
    from nm nn le have "fst (initialize M ?s) = None"
      by (intro initialize_succeeds) simp_all
    then obtain self' where init: "initialize M ?s = (None, self')"
      by (cases "initialize M ?s") simp
    from nn obtain vals
      where vals: "linspace (min_value self) (max_value self) (number_colors self) = Inr vals"
      using linspace_Inr_iff by blast
    then have vals': "linspace (min_value ?s) (max_value ?s) (number_colors ?s) = Inr vals"
      by simp
    from initialize_frame [OF init] have nm': "cmap_name self' = name" by simp
    from initialize_table [OF init vals'] linspace_length [OF vals] nn
    have "scalarMap self' = ((min_value self, max_value self), name)
          \<and> (valid_array_type (array_type self) \<longrightarrow>
                int (length (colormap_array self')) = number_colors self
                \<and> (\<forall>k<length vals.
                      table_entry M self' (vals ! k) = Some (Inr (colormap_array self' ! k))))"
      by simp
    with init nm' vals show ?thesis
      by (simp add: set_colormap_name_def)
  qed
  from bad good show ?thesis by simp
qed

theorem C4_set_colormap_name_witness:
  "''unknown_name_xyz'' \<notin> set (colormaps demo_mpl)
   \<and> set_colormap_name demo_mpl demo_palette ''unknown_name_xyz''
       = (Some ValueError, demo_palette\<lparr>cmap_name := ''unknown_name_xyz''\<rparr>)
   \<and> ''hot'' \<in> set (colormaps demo_mpl) \<and> 0 \<le> number_colors demo_palette
   \<and> min_value demo_palette \<le> max_value demo_palette
   \<and> valid_array_type (array_type demo_palette)
   \<and> fst (set_colormap_name demo_mpl demo_palette ''hot'') = None
   \<and> cmap_name (snd (set_colormap_name demo_mpl demo_palette ''hot'')) = ''hot''
   \<and> int (length (colormap_array (snd (set_colormap_name demo_mpl demo_palette ''hot'')))) = 3"
proof -
  have h: "''unknown_name_xyz'' \<notin> set (colormaps demo_mpl)"
    "''hot'' \<in> set (colormaps demo_mpl)" "0 \<le> number_colors demo_palette"
    "min_value demo_palette \<le> max_value demo_palette"
    "valid_array_type (array_type demo_palette)" "number_colors demo_palette = 3"
    by (simp_all add: demo_mpl_def demo_palette_eq valid_array_type_def)
  from C4_set_colormap_name [of "''unknown_name_xyz''" demo_mpl demo_palette]
    C4_set_colormap_name [of "''hot''" demo_mpl demo_palette] h
  show ?thesis by auto
qed

text \<open>
  After the failing call with an unknown name, the stored name is no longer the one
  before the call.
\<close>

theorem C4_counterexample:
  "fst (set_colormap_name demo_mpl demo_palette ''unknown_name_xyz'') = Some ValueError
   \<and> cmap_name demo_palette = ''viridis''
   \<and> cmap_name (snd (set_colormap_name demo_mpl demo_palette ''unknown_name_xyz''))
       = ''unknown_name_xyz''"
  by (simp add: demo_palette_eq set_colormap_name_def) (simp add: demo_eval)

section \<open>Cycling through the colormaps\<close>

lemma cycle_colormap_step:
  assumes "can_cycle M self"
  shows "\<exists>self'. cycle_colormap M self = (None, self')
           \<and> current_cycle_number self'
               = (current_cycle_number self + 1) mod int (length (names_to_cycle self))
           \<and> cmap_name self' = names_to_cycle self ! nat (current_cycle_number self')
           \<and> names_to_cycle self' = names_to_cycle self
           \<and> number_colors self' = number_colors self
           \<and> min_value self' = min_value self \<and> max_value self' = max_value self
           \<and> array_type self' = array_type self"
proof -
  let ?N = "int (length (names_to_cycle self))"
  let ?c = "(current_cycle_number self + 1) mod ?N"
  from assms have ne: "names_to_cycle self \<noteq> []" and sub: "set (names_to_cycle self) \<subseteq> set (colormaps M)"
    and nn: "0 \<le> number_colors self" and le: "min_value self \<le> max_value self"
    by (simp_all add: can_cycle_def)
  from ne have N: "0 < ?N" by simp
  then have c: "0 \<le> ?c" "?c < ?N" by simp_all
  let ?name = "names_to_cycle self ! nat ?c"
  let ?s = "self\<lparr>current_cycle_number := ?c, cmap_name := ?name\<rparr>"
  from c have "nat ?c < length (names_to_cycle self)" by linarith
  then have "?name \<in> set (names_to_cycle self)" by (rule nth_mem)
  with sub have known: "cmap_name ?s \<in> set (colormaps M)" by auto
  have unfold: "cycle_colormap M self = initialize M ?s"
    using ne c by (simp add: cycle_colormap_def Let_def subscript_def)
  from known nn le have "fst (initialize M ?s) = None"
    by (intro initialize_succeeds) simp_all
  then obtain self' where init: "initialize M ?s = (None, self')"
    by (cases "initialize M ?s") simp
  from initialize_frame [OF init] unfold init show ?thesis by simp
qed

lemma cycle_colormap_can_cycle:
  assumes "can_cycle M self" and "cycle_colormap M self = (None, self')"
  shows "can_cycle M self'"
  using cycle_colormap_step [OF assms(1)] assms by (auto simp: can_cycle_def)

lemma cycle_times_result:
  assumes "can_cycle M self"
  shows "\<exists>self'. cycle_times M k self = (None, self')
           \<and> names_to_cycle self' = names_to_cycle self
           \<and> (0 < k \<longrightarrow>
                current_cycle_number self'
                  = (current_cycle_number self + int k) mod int (length (names_to_cycle self))
                \<and> cmap_name self' = names_to_cycle self ! nat (current_cycle_number self'))"
  using assms
proof (induction k arbitrary: self)
  case 0
  show ?case by simp
next
  case (Suc k)
  let ?N = "int (length (names_to_cycle self))"
  from cycle_colormap_step [OF Suc.prems] obtain s1
    where s1: "cycle_colormap M self = (None, s1)"
      "current_cycle_number s1 = (current_cycle_number self + 1) mod ?N"
      "cmap_name s1 = names_to_cycle self ! nat (current_cycle_number s1)"
      "names_to_cycle s1 = names_to_cycle self"
    by blast
  have "can_cycle M s1" using Suc.prems s1(1) by (rule cycle_colormap_can_cycle)
  from Suc.IH [OF this] obtain s2
    where s2: "cycle_times M k s1 = (None, s2)"
      "names_to_cycle s2 = names_to_cycle s1"
      "0 < k \<longrightarrow> current_cycle_number s2 = (current_cycle_number s1 + int k) mod int (length (names_to_cycle s1))
                \<and> cmap_name s2 = names_to_cycle s1 ! nat (current_cycle_number s2)"
    by blast
  have run: "cycle_times M (Suc k) self = (None, s2)" using s1(1) s2(1) by simp
  show ?case
  proof (cases "k = 0")
    case True
    with s2(1) have "s2 = s1" by simp
    with run s1 True show ?thesis by simp
  next
    case False
    have "((current_cycle_number self + 1) mod ?N + int k) mod ?N
            = (current_cycle_number self + 1 + int k) mod ?N"
      by (rule mod_add_left_eq)
    also have "current_cycle_number self + 1 + int k = current_cycle_number self + int (Suc k)"
      by simp
    finally have "((current_cycle_number self + 1) mod ?N + int k) mod ?N
            = (current_cycle_number self + int (Suc k)) mod ?N" .
    with False s2(2,3) s1(2,4) run show ?thesis by simp
  qed
qed

text \<open>
  C6, as the code has it. With a non-empty cycle list whose names matplotlib all knows,
  \<open>0 \<le> number_colors\<close> and \<open>min_value \<le> max_value\<close>, \<^verbatim>\<open>cycle_colormap\<close> succeeds and
  moves the cycle index to \<open>(index + 1) mod N\<close>, \<open>N\<close> the length of the list. \<open>N\<close> calls
  in a row succeed, bring the index back to \<open>index mod N\<close>, and leave the name
  \<open>names_to_cycle[index mod N]\<close>: the name is back at its starting value when the
  starting name was the list's entry at the starting index.
\<close>

theorem C6_cycle:
  assumes "names_to_cycle self \<noteq> []" and "set (names_to_cycle self) \<subseteq> set (colormaps M)"
    and "0 \<le> number_colors self" and "min_value self \<le> max_value self"
  shows "fst (cycle_colormap M self) = None
         \<and> current_cycle_number (snd (cycle_colormap M self))
             = (current_cycle_number self + 1) mod int (length (names_to_cycle self))
         \<and> fst (cycle_times M (length (names_to_cycle self)) self) = None
         \<and> current_cycle_number (snd (cycle_times M (length (names_to_cycle self)) self))
             = current_cycle_number self mod int (length (names_to_cycle self))
         \<and> cmap_name (snd (cycle_times M (length (names_to_cycle self)) self))
             = names_to_cycle self
                 ! nat (current_cycle_number self mod int (length (names_to_cycle self)))
         \<and> (cmap_name self
               = names_to_cycle self
                   ! nat (current_cycle_number self mod int (length (names_to_cycle self)))
             \<longrightarrow> cmap_name (snd (cycle_times M (length (names_to_cycle self)) self))
                   = cmap_name self)"
proof -
  from assms have cc: "can_cycle M self" by (simp add: can_cycle_def)
  let ?N = "length (names_to_cycle self)"
  from assms(1) have N: "0 < ?N" by simp
  from cycle_colormap_step [OF cc] have one: "fst (cycle_colormap M self) = None"
    "current_cycle_number (snd (cycle_colormap M self))
       = (current_cycle_number self + 1) mod int ?N"
    by auto
  from cycle_times_result [OF cc, of ?N] N obtain self'
    where r: "cycle_times M ?N self = (None, self')"
      "current_cycle_number self' = (current_cycle_number self + int ?N) mod int ?N"
      "cmap_name self' = names_to_cycle self ! nat (current_cycle_number self')"
    by blast
  from r(2) have "current_cycle_number self' = current_cycle_number self mod int ?N"
    by simp
  with one r(1,3) show ?thesis by simp
qed

lemma demo_jet_eq:
  "demo_jet =
     \<lparr>names_all = [''viridis'', ''plasma'', ''magma'', ''inferno'', ''cividis'',
        ''spring'', ''summer'', ''autumn'', ''winter'', ''hot'', ''twilight'', ''jet''],
      names_to_cycle = [''viridis'', ''plasma'', ''magma'', ''inferno'', ''cividis'',
        ''spring'', ''summer'', ''autumn'', ''winter'', ''hot'', ''twilight''],
      current_cycle_number = 0, cmap_name = ''jet'',
      min_value = 0, max_value = 255, number_colors = 2,
      colormap_array = [RGB_U8 0 255 128, RGB_U8 255 0 128],
      array_type = ''rgb_u8'', cmap_obj = ''jet'',
      norm_obj = (0, 255), scalarMap = ((0, 255), ''jet'')\<rparr>"
  by (simp add: demo_jet_def demo_eval)

theorem C6_cycle_witness:
  "names_to_cycle demo_palette \<noteq> []
   \<and> set (names_to_cycle demo_palette) \<subseteq> set (colormaps demo_mpl)
   \<and> 0 \<le> number_colors demo_palette \<and> min_value demo_palette \<le> max_value demo_palette
   \<and> length (names_to_cycle demo_palette) = 11
   \<and> fst (cycle_times demo_mpl 11 demo_palette) = None
   \<and> current_cycle_number (snd (cycle_times demo_mpl 11 demo_palette)) = 0
   \<and> cmap_name (snd (cycle_times demo_mpl 11 demo_palette)) = ''viridis''
   \<and> cmap_name demo_palette = ''viridis''"
proof -
  have h: "names_to_cycle demo_palette \<noteq> []"
    "set (names_to_cycle demo_palette) \<subseteq> set (colormaps demo_mpl)"
    "0 \<le> number_colors demo_palette" "min_value demo_palette \<le> max_value demo_palette"
    by (simp_all add: demo_palette_eq demo_mpl_def)
  have v: "length (names_to_cycle demo_palette) = 11" "current_cycle_number demo_palette = 0"
    "cmap_name demo_palette = ''viridis''"
    "names_to_cycle demo_palette ! 0 = ''viridis''"
    by (simp_all add: demo_palette_eq)
  from C6_cycle [OF h] h v show ?thesis by simp
qed

text \<open>
  A palette constructed under the name \<^verbatim>\<open>jet\<close>, which matplotlib knows and the cycle
  list does not contain, starts at cycle index \<open>0\<close>; after eleven calls its name is
  \<^verbatim>\<open>viridis\<close>.
\<close>

theorem C6_counterexample:
  "ColorMap_init demo_mpl 0 255 ''jet'' 2 ''rgb_u8'' = Inr demo_jet
   \<and> cmap_name demo_jet = ''jet''
   \<and> length (names_to_cycle demo_jet) = 11
   \<and> fst (cycle_times demo_mpl 11 demo_jet) = None
   \<and> cmap_name (snd (cycle_times demo_mpl 11 demo_jet)) = ''viridis''"
proof -
  have a: "ColorMap_init demo_mpl 0 255 ''jet'' 2 ''rgb_u8'' = Inr demo_jet"
    by (simp add: demo_jet_eq) (simp add: demo_eval)
  have b: "cmap_name demo_jet = ''jet''" "length (names_to_cycle demo_jet) = 11"
    by (simp_all add: demo_jet_eq)
  have "cycle_times demo_mpl 11 demo_jet
          = (None, demo_jet\<lparr>cmap_name := ''viridis'',
               colormap_array := [RGB_U8 0 255 0, RGB_U8 255 0 0],
               cmap_obj := ''viridis'', scalarMap := ((0, 255), ''viridis'')\<rparr>)"
    by (simp add: demo_jet_eq eval_nat_numeral cycle_colormap_def demo_eval)
  then have c: "fst (cycle_times demo_mpl 11 demo_jet) = None
     \<and> cmap_name (snd (cycle_times demo_mpl 11 demo_jet)) = ''viridis''"
    by simp
  from a b c show ?thesis by simp
qed

section \<open>Zooming with the mouse\<close>

lemmas host_eval =
  startup_def calculate_mandelbrot_def escape_loop.simps mouse_button_up_def

lemma demo_start_eq:
  "demo_start =
     \<lparr>num_x = 4, num_y = 2, real_min = - 2, real_max = 1, imag_max = 3 / 4,
      imag_min = - (3 / 4), real_values = [- 2, - 1, 0, 1], imag_values = [3 / 4, - (3 / 4)],
      cmap = demo_palette, set_black = False, max_itr = 3,
      px_arr = [ [1, 1], [2, 2], [2, 2], [2, 2] ],
      mouse_down_x = 0, mouse_down_y = 0, mouse_up_x = 0, mouse_up_y = 0, run = True\<rparr>"
  by (simp add: demo_start_def demo_palette_eq host_eval demo_eval)

lemma demo_start_startup: "startup demo_mpl 4 2 3 = Inr demo_start"
  by (simp add: demo_start_eq demo_palette_eq host_eval demo_eval)

lemma demo_pressed_eq: "demo_pressed = demo_start\<lparr>mouse_down_x := 3, mouse_down_y := 0\<rparr>"
  by (simp add: demo_pressed_def)

lemma demo_released_eq:
  "demo_released =
     \<lparr>num_x = 4, num_y = 2, real_min = 1, real_max = - 1, imag_max = 3 / 4,
      imag_min = 7 / 4, real_values = [1, 1 / 3, - (1 / 3), - 1], imag_values = [3 / 4, 7 / 4],
      cmap = demo_palette, set_black = False, max_itr = 3,
      px_arr = [ [2, 1], [2, 2], [2, 2], [2, 1] ],
      mouse_down_x = 3, mouse_down_y = 0, mouse_up_x = 1, mouse_up_y = 1, run = True\<rparr>"
  by (simp add: demo_released_def demo_pressed_eq demo_start_eq host_eval linspace_def
        upt_conv_Cons subscript_def Let_def)

text \<open>
  A drag released to the left of where it was pressed: the handler raises nothing, stores
  \<open>real_max < real_min\<close> and recomputes the iteration counts on that viewport.
\<close>

theorem C2_counterexample:
  "startup demo_mpl 4 2 3 = Inr demo_start
   \<and> handle_event demo_mpl demo_start (MOUSEBUTTONDOWN 3 0) = Inr demo_pressed
   \<and> handle_event demo_mpl demo_pressed (MOUSEBUTTONUP 1 1) = Inr demo_released
   \<and> real_min demo_released = 1 \<and> real_max demo_released = - 1
   \<and> real_max demo_released < real_min demo_released
   \<and> px_arr demo_released
       = calculate_mandelbrot (real_values demo_released) (imag_values demo_released)
           (max_itr demo_released)
   \<and> px_arr demo_released = [ [2, 1], [2, 2], [2, 2], [2, 1] ]"
proof -
  have a: "handle_event demo_mpl demo_start (MOUSEBUTTONDOWN 3 0) = Inr demo_pressed"
    by (simp add: demo_pressed_eq)
  have b: "handle_event demo_mpl demo_pressed (MOUSEBUTTONUP 1 1) = Inr demo_released"
    by (simp add: demo_released_eq demo_pressed_eq demo_start_eq host_eval linspace_def
          upt_conv_Cons subscript_def Let_def)
  have c: "px_arr demo_released
       = calculate_mandelbrot (real_values demo_released) (imag_values demo_released)
           (max_itr demo_released)"
    by (simp add: demo_released_eq host_eval upt_conv_Cons)
  from demo_start_startup a b c show ?thesis
    by (simp add: demo_released_eq)
qed

text \<open>
  C2, as the code has it. The \<^verbatim>\<open>MOUSEBUTTONUP\<close> handler validates nothing: whenever the
  three pixel indices it reads are valid for the sample arrays and the window size is not
  negative, it returns normally, whatever the order of the resulting bounds (equal bounds
  and \<open>real_max < real_min\<close> included): the bounds are stored, both axes are resampled and
  \<^verbatim>\<open>calculate_mandelbrot\<close> is run on them.
\<close>

theorem C2_no_validation:
  assumes "subscript (real_values s) (mouse_down_x s) = Inr rmin"
    and "subscript (real_values s) ux = Inr rmax"
    and "subscript (imag_values s) (mouse_down_y s) = Inr imax"
    and "0 \<le> num_x s" and "0 \<le> num_y s"
  shows "\<exists>rv iv.
           linspace rmin rmax (num_x s) = Inr rv
           \<and> linspace imax (imax - real_of_int (num_y s) * (rmax - rmin) / real_of_int (num_x s))
                 (num_y s) = Inr iv
           \<and> mouse_button_up s ux uy =
               Inr (s\<lparr>mouse_up_x := ux, mouse_up_y := uy,
                      real_min := rmin, real_max := rmax, imag_max := imax,
                      imag_min := imax - real_of_int (num_y s) * (rmax - rmin) / real_of_int (num_x s),
                      real_values := rv, imag_values := iv,
                      px_arr := calculate_mandelbrot rv iv (max_itr s)\<rparr>)"
proof -
  let ?imin = "imax - real_of_int (num_y s) * (rmax - rmin) / real_of_int (num_x s)"
  from assms(4) obtain rv where rv: "linspace rmin rmax (num_x s) = Inr rv"
    using linspace_Inr_iff by blast
  from assms(5) obtain iv where iv: "linspace imax ?imin (num_y s) = Inr iv"
    using linspace_Inr_iff by blast
  from assms(1-3) rv iv
  have "mouse_button_up s ux uy =
               Inr (s\<lparr>mouse_up_x := ux, mouse_up_y := uy,
                      real_min := rmin, real_max := rmax, imag_max := imax,
                      imag_min := ?imin, real_values := rv, imag_values := iv,
                      px_arr := calculate_mandelbrot rv iv (max_itr s)\<rparr>)"
    by (simp add: mouse_button_up_def Let_def)
  with rv iv show ?thesis by blast
qed

theorem C2_no_validation_witness:
  "subscript (real_values demo_pressed) (mouse_down_x demo_pressed) = Inr 1
   \<and> subscript (real_values demo_pressed) 3 = Inr 1
   \<and> subscript (imag_values demo_pressed) (mouse_down_y demo_pressed) = Inr (3 / 4)
   \<and> 0 \<le> num_x demo_pressed \<and> 0 \<le> num_y demo_pressed
   \<and> \<not> isl (mouse_button_up demo_pressed 3 0)
   \<and> real_min (projr (mouse_button_up demo_pressed 3 0)) = 1
   \<and> real_max (projr (mouse_button_up demo_pressed 3 0)) = 1
   \<and> imag_min (projr (mouse_button_up demo_pressed 3 0)) = 3 / 4
   \<and> imag_max (projr (mouse_button_up demo_pressed 3 0)) = 3 / 4"
proof -
  have h: "subscript (real_values demo_pressed) (mouse_down_x demo_pressed) = Inr 1"
    "subscript (real_values demo_pressed) 3 = Inr 1"
    "subscript (imag_values demo_pressed) (mouse_down_y demo_pressed) = Inr (3 / 4)"
    "0 \<le> num_x demo_pressed" "0 \<le> num_y demo_pressed"
    by (simp_all add: demo_pressed_eq demo_start_eq subscript_def)
  from C2_no_validation [OF h, of 0] obtain rv iv
    where "mouse_button_up demo_pressed 3 0 =
               Inr (demo_pressed\<lparr>mouse_up_x := 3, mouse_up_y := 0,
                      real_min := 1, real_max := 1, imag_max := 3 / 4,
                      imag_min := 3 / 4 - real_of_int (num_y demo_pressed) * (1 - 1)
                                            / real_of_int (num_x demo_pressed),
                      real_values := rv, imag_values := iv,
                      px_arr := calculate_mandelbrot rv iv (max_itr demo_pressed)\<rparr>)"
    by blast
  with h show ?thesis by simp
qed



section \<open>The colouring pass never reads outside the table\<close>

lemma cycle_colormap_None:
  assumes "cycle_colormap M self = (None, self')"
  shows "\<exists>self0. initialize M self0 = (None, self') \<and> array_type self0 = array_type self
           \<and> number_colors self0 = number_colors self"
proof -
  let ?N = "int (length (names_to_cycle self))"
  let ?c = "(current_cycle_number self + 1) mod ?N"
  from assms have ne: "names_to_cycle self \<noteq> []"
    by (auto simp: cycle_colormap_def Let_def)
  then have "0 < ?N" by simp
  then have c: "0 \<le> ?c" "?c < ?N" by simp_all
  let ?s = "self\<lparr>current_cycle_number := ?c, cmap_name := names_to_cycle self ! nat ?c\<rparr>"
  have "cycle_colormap M self = initialize M ?s"
    using ne c by (simp add: cycle_colormap_def Let_def subscript_def)
  with assms have "initialize M ?s = (None, self')" by simp
  then show ?thesis by (intro exI [of _ ?s]) simp
qed

lemma ColorMap_init_Inr:
  assumes "ColorMap_init M lo hi name n ty = Inr cm"
  shows "\<exists>self0. initialize M self0 = (None, cm) \<and> array_type self0 = ty
           \<and> number_colors self0 = n"
proof -
  let ?s = "\<lparr>names_all = colormaps M,
         names_to_cycle = [''viridis'', ''plasma'', ''magma'', ''inferno'', ''cividis'',
           ''spring'', ''summer'', ''autumn'', ''winter'', ''hot'', ''twilight''],
         current_cycle_number = 0, cmap_name = name, min_value = lo, max_value = hi,
         number_colors = n, colormap_array = [], array_type = ty, cmap_obj = name,
         norm_obj = (lo, hi), scalarMap = ((lo, hi), name)\<rparr>"
  from assms have "initialize M ?s = (None, cm)"
    by (auto simp: ColorMap_init_def split: prod.splits option.splits)
  then show ?thesis by (intro exI [of _ ?s]) simp
qed

lemma assign_item_length: "assign_item xs i v = Inr ys \<Longrightarrow> length ys = length xs"
  by (auto simp: assign_item_def Let_def split: if_splits)

lemma set_last_color_inv:
  assumes "set_last_color s c = Inr s'" and "host_inv M s"
  shows "host_inv M s'"
proof -
  from assms(1) obtain arr
    where arr: "assign_item (colormap_array (cmap s)) (number_colors (cmap s) - 1) c = Inr arr"
      and s': "s' = s\<lparr>cmap := (cmap s)\<lparr>colormap_array := arr\<rparr>\<rparr>"
    by (auto simp: set_last_color_def split: sum.splits)
  from assign_item_length [OF arr] assms(2) show ?thesis
    by (simp add: host_inv_def s')
qed

lemma palette_change_inv:
  assumes "host_inv M s" and "initialize M self0 = (None, cm)"
    and "array_type self0 = array_type (cmap s)" and "number_colors self0 = number_colors (cmap s)"
  shows "host_inv M (s\<lparr>cmap := cm\<rparr>)"
proof -
  note fr = initialize_frame [OF assms(2)]
  from assms(1,3) have ty: "array_type cm = ''rgb_u8''" by (simp add: host_inv_def fr)
  then have "valid_array_type (array_type cm)" by (simp add: valid_array_type_def)
  from initialize_length [OF assms(2) this] assms(1,4) ty show ?thesis
    by (simp add: host_inv_def fr)
qed

lemma startup_inv:
  assumes "startup M nx ny num_colors = Inr s" and "1 \<le> num_colors"
  shows "host_inv M s"
proof -
  from assms(1) obtain rv iv cm
    where cm: "ColorMap_init M 0 255 ''viridis'' num_colors ''rgb_u8'' = Inr cm"
      and s: "cmap s = cm" "max_itr s = number_colors cm" "real_values s = rv" "imag_values s = iv"
        "px_arr s = calculate_mandelbrot rv iv (number_colors cm)"
    by (auto simp: startup_def Let_def split: if_splits sum.splits)
  from ColorMap_init_Inr [OF cm] obtain self0
    where init: "initialize M self0 = (None, cm)" and ty: "array_type self0 = ''rgb_u8''"
      and n: "number_colors self0 = num_colors"
    by blast
  note fr = initialize_frame [OF init]
  from ty have "valid_array_type (array_type cm)" by (simp add: valid_array_type_def fr)
  from initialize_length [OF init this] assms(2) s ty n show ?thesis
    by (simp add: host_inv_def fr)
qed

lemma mouse_button_up_inv:
  assumes "mouse_button_up s ux uy = Inr s'" and "host_inv M s"
  shows "host_inv M s'"
  using assms by (auto simp: mouse_button_up_def Let_def host_inv_def split: sum.splits)

lemma key_c_inv:
  assumes "key_c M s = Inr s'" and "host_inv M s"
  shows "host_inv M s'"
proof -
  from assms(1) obtain cm where cyc: "cycle_colormap M (cmap s) = (None, cm)"
    and rest: "(if set_black s then set_last_color (s\<lparr>cmap := cm\<rparr>) (RGB_U8 0 0 0)
                else Inr (s\<lparr>cmap := cm\<rparr>)) = Inr s'"
    by (auto simp: key_c_def Let_def split: prod.splits option.splits)
  from cycle_colormap_None [OF cyc] obtain self0
    where "initialize M self0 = (None, cm)" "array_type self0 = array_type (cmap s)"
      "number_colors self0 = number_colors (cmap s)"
    by blast
  with assms(2) have inv1: "host_inv M (s\<lparr>cmap := cm\<rparr>)" by (rule palette_change_inv)
  show ?thesis
  proof (cases "set_black s")
    case True
    with rest have "set_last_color (s\<lparr>cmap := cm\<rparr>) (RGB_U8 0 0 0) = Inr s'" by simp
    then show ?thesis using inv1 by (rule set_last_color_inv)
  next
    case False
    with rest inv1 show ?thesis by simp
  qed
qed

lemma key_b_inv:
  assumes "key_b M s = Inr s'" and "host_inv M s"
  shows "host_inv M s'"
proof -
  let ?s1 = "s\<lparr>set_black := \<not> set_black s\<rparr>"
  from assms(2) have inv1: "host_inv M ?s1" by (simp add: host_inv_def)
  from assms(1) obtain c where "set_last_color ?s1 c = Inr s'"
    by (auto simp: key_b_def Let_def split: if_splits sum.splits)
  then show ?thesis using inv1 by (rule set_last_color_inv)
qed

lemma handle_event_inv:
  assumes "handle_event M s ev = Inr s'" and "host_inv M s"
  shows "host_inv M s'"
proof (cases ev)
  case QUIT
  with assms show ?thesis by (auto simp: host_inv_def)
next
  case (MOUSEBUTTONDOWN px py)
  with assms show ?thesis by (auto simp: host_inv_def)
next
  case (MOUSEBUTTONUP px py)
  with assms show ?thesis by (auto intro: mouse_button_up_inv)
next
  case KEYDOWN_c
  with assms show ?thesis by (auto intro: key_c_inv)
next
  case KEYDOWN_b
  with assms show ?thesis by (auto intro: key_b_inv)
next
  case KEYDOWN_ESCAPE
  with assms show ?thesis by (auto simp: host_inv_def)
qed

lemma reachable_inv:
  assumes "reachable M nx ny num_colors s" and "1 \<le> num_colors"
  shows "host_inv M s"
  using assms
proof (induction rule: reachable.induct)
  case (reachable_startup s)
  then show ?case by (rule startup_inv)
next
  case (reachable_event s ev s')
  from reachable_event.hyps(2) reachable_event.IH [OF reachable_event.prems]
  show ?case by (rule handle_event_inv)
qed

lemma collect_map_Inr:
  assumes "\<And>x. x \<in> set xs \<Longrightarrow> f x = Inr (g x)"
  shows "collect (map f xs) = Inr (map g xs)"
  using assms by (induction xs) simp_all

lemma pixel_color_inv:
  assumes "host_inv M s" and "i < length (real_values s)" and "j < length (imag_values s)"
  shows "0 \<le> px_arr s ! i ! j \<and> px_arr s ! i ! j < max_itr s
         \<and> pixel_color s i j = Inr (colormap_array (cmap s) ! nat (px_arr s ! i ! j))"
proof -
  from assms(1) have px: "px_arr s = calculate_mandelbrot (real_values s) (imag_values s) (max_itr s)"
    and m: "1 \<le> max_itr s" and n: "max_itr s = number_colors (cmap s)"
    and len: "int (length (colormap_array (cmap s))) = number_colors (cmap s)"
    by (simp_all add: host_inv_def)
  let ?v = "px_arr s ! i ! j"
  have v: "?v = escape_loop (max_itr s) (real_values s ! i) (imag_values s ! j) 0 0 0"
    by (subst px) (rule calculate_mandelbrot_nth [OF assms(2,3)])
  have lo: "0 \<le> ?v" unfolding v by (rule escape_loop_lower)
  have "?v \<le> max_itr s - 1" unfolding v using m by (intro escape_loop_upper) simp
  then have hi: "?v < max_itr s" by simp
  have row: "subscript (px_arr s) (int i) = Inr (px_arr s ! i)"
    using assms(2) by (simp add: subscript_def px calculate_mandelbrot_length)
  have cell: "subscript (px_arr s ! i) (int j) = Inr ?v"
    using assms(2,3) by (simp add: subscript_def px calculate_mandelbrot_row_length)
  have "table_lookup (cmap s) ?v = Inr (colormap_array (cmap s) ! nat ?v)"
    using lo hi n len by (simp add: table_lookup_def subscript_def)
  with row cell lo hi show ?thesis by (simp add: pixel_color_def)
qed

lemma render_inv:
  assumes "host_inv M s"
  shows "render s =
           Inr (map (\<lambda>i. map (\<lambda>j. colormap_array (cmap s) ! nat (px_arr s ! i ! j))
                              [0 ..< length (imag_values s)])
                    [0 ..< length (real_values s)])"
  unfolding render_def
proof (rule collect_map_Inr)
  fix i assume "i \<in> set [0 ..< length (real_values s)]"
  then have i: "i < length (real_values s)" by simp
  show "collect (map (pixel_color s i) [0 ..< length (imag_values s)])
          = Inr (map (\<lambda>j. colormap_array (cmap s) ! nat (px_arr s ! i ! j))
                     [0 ..< length (imag_values s)])"
  proof (rule collect_map_Inr)
    fix j assume "j \<in> set [0 ..< length (imag_values s)]"
    then have "j < length (imag_values s)" by simp
    from pixel_color_inv [OF assms i this]
    show "pixel_color s i j = Inr (colormap_array (cmap s) ! nat (px_arr s ! i ! j))" by simp
  qed
qed

lemma program_startup_reachable:
  "program_startup M = Inr s \<Longrightarrow> reachable M 1280 800 256 s"
  by (simp add: program_startup_def reachable_startup)

lemma program_render_succeeds:
  assumes "reachable M 1280 800 256 s"
  shows "\<not> isl (render s)"
proof -
  from assms have "host_inv M s" by (rule reachable_inv) simp
  then show ?thesis by (simp add: render_inv)
qed

text \<open>
  C10. In every state the program reaches, started with at least one colour (the source
  has \<open>256\<close>), the iteration cap \<open>max_itr\<close> is \<^verbatim>\<open>cmap.number_colors\<close>, the table has exactly
  that many entries, every stored count of the grid is an integer in \<open>[0, max_itr - 1]\<close>,
  so the read \<^verbatim>\<open>cmap.colormap_array[int(px_arr[i, j])]\<close> succeeds at every pixel and the
  colouring pass raises nothing.
\<close>

theorem C10_lookup_in_range:
  assumes "reachable M nx ny num_colors s" and "1 \<le> num_colors"
  shows "max_itr s = number_colors (cmap s)
         \<and> int (length (colormap_array (cmap s))) = max_itr s
         \<and> (\<forall>i<length (real_values s). \<forall>j<length (imag_values s).
               0 \<le> px_arr s ! i ! j \<and> px_arr s ! i ! j \<le> max_itr s - 1
               \<and> table_lookup (cmap s) (px_arr s ! i ! j)
                   = Inr (colormap_array (cmap s) ! nat (px_arr s ! i ! j))
               \<and> pixel_color s i j = Inr (colormap_array (cmap s) ! nat (px_arr s ! i ! j)))
         \<and> \<not> isl (render s)"
proof -
  from assms have inv: "host_inv M s" by (rule reachable_inv)
  then have a: "max_itr s = number_colors (cmap s)"
    "int (length (colormap_array (cmap s))) = max_itr s"
    by (simp_all add: host_inv_def)
  have b: "0 \<le> px_arr s ! i ! j \<and> px_arr s ! i ! j \<le> max_itr s - 1
           \<and> table_lookup (cmap s) (px_arr s ! i ! j)
               = Inr (colormap_array (cmap s) ! nat (px_arr s ! i ! j))
           \<and> pixel_color s i j = Inr (colormap_array (cmap s) ! nat (px_arr s ! i ! j))"
    if "i < length (real_values s)" "j < length (imag_values s)" for i j
    using pixel_color_inv [OF inv that] a(2)
    by (simp add: table_lookup_def subscript_def)
  have c: "\<not> isl (render s)" by (simp add: render_inv [OF inv])
  from a b c show ?thesis by blast
qed

theorem C10_lookup_in_range_witness:
  "reachable demo_mpl 4 2 3 demo_released \<and> (1::int) \<le> 3
   \<and> max_itr demo_released = 3 \<and> length (colormap_array (cmap demo_released)) = 3
   \<and> px_arr demo_released = [ [2, 1], [2, 2], [2, 2], [2, 1] ]
   \<and> render demo_released
       = Inr [ [RGB_U8 255 0 0, RGB_U8 128 128 0], [RGB_U8 255 0 0, RGB_U8 255 0 0],
              [RGB_U8 255 0 0, RGB_U8 255 0 0], [RGB_U8 255 0 0, RGB_U8 128 128 0] ]"
proof -
  have a: "handle_event demo_mpl demo_start (MOUSEBUTTONDOWN 3 0) = Inr demo_pressed"
    by (simp add: demo_pressed_eq)
  have b: "handle_event demo_mpl demo_pressed (MOUSEBUTTONUP 1 1) = Inr demo_released"
    by (simp add: demo_released_eq demo_pressed_eq demo_start_eq host_eval linspace_def
          upt_conv_Cons subscript_def Let_def)
  have "reachable demo_mpl 4 2 3 demo_start"
    using demo_start_startup by (rule reachable_startup)
  then have "reachable demo_mpl 4 2 3 demo_pressed" using a by (rule reachable_event)
  then have r: "reachable demo_mpl 4 2 3 demo_released" using b by (rule reachable_event)
  have v: "render demo_released
       = Inr [ [RGB_U8 255 0 0, RGB_U8 128 128 0], [RGB_U8 255 0 0, RGB_U8 255 0 0],
              [RGB_U8 255 0 0, RGB_U8 255 0 0], [RGB_U8 255 0 0, RGB_U8 128 128 0] ]"
    by (simp add: demo_released_eq demo_palette_eq render_def pixel_color_def table_lookup_def
          subscript_def upt_conv_Cons)
  from C10_lookup_in_range [OF r] r v show ?thesis
    by (simp add: demo_released_eq demo_palette_eq)
qed

end
